theory Spec2Isabelle
  imports Main
begin

section \<open>The subiquity server: shared data\<close>

text \<open>
  The development follows \<^verbatim>\<open>subiquity/server/server.py\<close>. Each part of the server is
  embedded as a function over the fields of \<^verbatim>\<open>SubiquityServer\<close> it reads and writes;
  collaborators that live in other modules (controllers, the model, the error reporter,
  the operating system) appear as parameters.
\<close>

text \<open>
  Modelled from the spec: the enumeration \<^verbatim>\<open>ApplicationState\<close> of
  \<^verbatim>\<open>subiquity.common.types\<close> is missing; the members are the states the spec lists and
  the source names.
\<close>

datatype ApplicationState =
    STARTING_UP
  | CLOUD_INIT_WAIT
  | EARLY_COMMANDS
  | WAITING
  | NEEDS_CONFIRMATION
  | RUNNING
  | DONE
  | ERROR
  | EXITED

text \<open>The attribute \<^verbatim>\<open>state.name\<close> of an enumeration member.\<close>

fun state_name :: "ApplicationState \<Rightarrow> string" where
  "state_name STARTING_UP = ''STARTING_UP''"
| "state_name CLOUD_INIT_WAIT = ''CLOUD_INIT_WAIT''"
| "state_name EARLY_COMMANDS = ''EARLY_COMMANDS''"
| "state_name WAITING = ''WAITING''"
| "state_name NEEDS_CONFIRMATION = ''NEEDS_CONFIRMATION''"
| "state_name RUNNING = ''RUNNING''"
| "state_name DONE = ''DONE''"
| "state_name ERROR = ''ERROR''"
| "state_name EXITED = ''EXITED''"

text \<open>
  Modelled from the spec: \<^verbatim>\<open>PasswordKind\<close> of \<^verbatim>\<open>subiquity.common.types\<close>, with the
  three members the spec and the source name.
\<close>

datatype PasswordKind = NONE | KNOWN | UNKNOWN

text \<open>The command-line options (\<^verbatim>\<open>self.opts\<close>) the modelled functions read.\<close>

record opts =
  dry_run :: bool
  autoinstall :: "string option"

text \<open>
  The three installer-user attributes of the server, set by
  \<^verbatim>\<open>set_installer_password\<close> and read by \<^verbatim>\<open>ssh_info_GET\<close>.
\<close>

record installer_user =
  installer_user_name :: "string option"
  installer_user_passwd_kind :: PasswordKind
  installer_user_passwd :: "string option"

text \<open>
  What the server learns from the operating system: the key-fingerprint probes of
  \<^verbatim>\<open>subiquitycore.ssh\<close>, the environment variable \<^verbatim>\<open>USER\<close>, the lines of
  \<^verbatim>\<open>/etc/shadow\<close> and of \<^verbatim>\<open>/var/log/cloud-init-output.log\<close> (\<open>None\<close> when the file
  is missing), the password \<^verbatim>\<open>rand_user_password()\<close> returns, and the return code of
  \<^verbatim>\<open>chpasswd\<close> on a given input.
\<close>

record os_facts =
  user_key_fingerprints :: "string \<Rightarrow> (string \<times> string) list"
  host_key_fingerprints_probe :: "(string \<times> string) list"
  environ_USER :: "string option"
  etc_shadow :: "string list option"
  cloud_init_output_log :: "string list option"
  rand_user_password :: string
  chpasswd_returncode :: "string \<Rightarrow> int"

section \<open>SSH session information\<close>

record 'ip netdev =
  actual_global_ip_addresses :: "'ip list"

record KeyFingerprint =
  keytype :: string
  fingerprint :: string

record LiveSessionSSHInfo =
  username :: string
  password_kind :: PasswordKind
  password :: "string option"
  authorized_key_fingerprints :: "KeyFingerprint list"
  ips :: "string list"
  host_key_fingerprints :: "KeyFingerprint list"

text \<open>
  What \<^verbatim>\<open>ssh_info_GET\<close> reads: \<^verbatim>\<open>base_model.network\<close> (\<^verbatim>\<open>None\<close> or a network model
  with its devices), the three installer-user attributes and the conversion \<^verbatim>\<open>str\<close> of
  an address; the two key-fingerprint probes come from the operating system.
\<close>

record 'ip ssh_env = installer_user +
  network :: "'ip netdev list option"
  str_of_ip :: "'ip \<Rightarrow> string"

text \<open>
  The loop over \<^verbatim>\<open>get_all_netdevs()\<close> extending \<^verbatim>\<open>ips\<close>; skipped when
  \<^verbatim>\<open>base_model.network\<close> is falsy.
\<close>

definition collect_ips :: "'ip ssh_env \<Rightarrow> string list" where
  "collect_ips env =
     (case network env of
        None \<Rightarrow> []
      | Some devs \<Rightarrow> concat (map (\<lambda>dev. map (str_of_ip env) (actual_global_ip_addresses dev)) devs))"

text \<open>
  Line 128 tests \<^verbatim>\<open>not user_key_fingerprints\<close>: the imported function, not the list
  \<^verbatim>\<open>user_fingerprints\<close> built above it. A Python function object is always truthy.
\<close>

definition function_object_truthy :: "'a \<Rightarrow> bool" where
  "function_object_truthy f = True"

definition make_fingerprints :: "(string \<times> string) list \<Rightarrow> KeyFingerprint list" where
  "make_fingerprints kfs = map (\<lambda>(k, f). \<lparr>keytype = k, fingerprint = f\<rparr>) kfs"

definition ssh_info_GET :: "os_facts \<Rightarrow> 'ip ssh_env \<Rightarrow> LiveSessionSSHInfo option" where
  "ssh_info_GET os env =
     (let addrs = collect_ips env in
      if addrs = [] then None
      else (case installer_user_name env of
              None \<Rightarrow> None
            | Some user \<Rightarrow>
                (let user_fingerprints = make_fingerprints (user_key_fingerprints os user) in
                 if installer_user_passwd_kind env = NONE
                    \<and> \<not> function_object_truthy (user_key_fingerprints os)
                 then None
                 else Some \<lparr>username = user,
                            password_kind = installer_user_passwd_kind env,
                            password = installer_user_passwd env,
                            authorized_key_fingerprints = user_fingerprints,
                            ips = addrs,
                            host_key_fingerprints =
                              make_fingerprints (host_key_fingerprints_probe os)\<rparr>)))"

section \<open>Files, paths and exceptions\<close>

text \<open>
  The file system is a map from path names to file contents; \<^verbatim>\<open>os.path.exists\<close> is
  membership in its domain. Exceptions are values; a function that may raise returns a sum
  with the exception on the left.
\<close>

type_synonym filesystem = "string \<rightharpoonup> string"

definition path_exists :: "filesystem \<Rightarrow> string \<Rightarrow> bool" where
  "path_exists fs p = (fs p \<noteq> None)"

datatype error =
    Exception string
  | ValueError string
  | KeyError string
  | FileNotFoundError string
  | TypeError string
  | IndexError string

text \<open>\<^verbatim>\<open>os.path.join\<close> of two components, as \<^verbatim>\<open>posixpath\<close> computes it.\<close>

definition path_join :: "string \<Rightarrow> string \<Rightarrow> string" where
  "path_join a b =
     (if b \<noteq> [] \<and> hd b = CHR ''/'' then b
      else if a = [] \<or> last a = CHR ''/'' then a @ b
      else a @ ''/'' @ b)"

section \<open>Restart\<close>

text \<open>
  \<^verbatim>\<open>SubiquityServer.restart\<close> reads \<^verbatim>\<open>self.snapd\<close> (an \<^verbatim>\<open>AsyncSnapd\<close> or
  \<^verbatim>\<open>None\<close>), \<^verbatim>\<open>self.opts.dry_run\<close>, \<^verbatim>\<open>sys.executable\<close> and \<^verbatim>\<open>sys.argv\<close>. It
  either returns or calls \<^verbatim>\<open>os.execvp(cmdline[0], cmdline)\<close>, which replaces the process
  image by that program.
\<close>

record 'snapd restart_env =
  snapd :: "'snapd option"
  sys_executable :: string
  sys_argv :: "string list"

datatype restart_outcome =
    Returned
  | Execvp string "string list"
  | Raised error

definition restart_cmdline :: "opts \<Rightarrow> 'snapd restart_env \<Rightarrow> string list" where
  "restart_cmdline options env =
     (if dry_run options
      then [sys_executable env, ''-m'', ''subiquity.cmd.server''] @ drop 1 (sys_argv env)
      else [''snap'', ''run'', ''subiquity.subiquity-server''])"

definition restart :: "opts \<Rightarrow> 'snapd restart_env \<Rightarrow> restart_outcome" where
  "restart options env =
     (if snapd env = None then Returned
      else (case restart_cmdline options env of
              [] \<Rightarrow> Raised (IndexError ''list index out of range'')
            | file # rest \<Rightarrow> Execvp file (file # rest)))"

text \<open>\<^verbatim>\<open>MetaController.restart_POST\<close> calls \<^verbatim>\<open>self.app.restart()\<close> and nothing else.\<close>

definition restart_POST :: "opts \<Rightarrow> 'snapd restart_env \<Rightarrow> restart_outcome" where
  "restart_POST options env = restart options env"

section \<open>Autoinstall source selection\<close>

definition iso_autoinstall_path :: string where
  "iso_autoinstall_path = ''cdrom/autoinstall.yaml''"

definition root_autoinstall_path :: string where
  "root_autoinstall_path = ''autoinstall.yaml''"

definition cloud_autoinstall_path :: string where
  "cloud_autoinstall_path = ''run/subiquity/cloud.autoinstall.yaml''"

text \<open>\<^verbatim>\<open>base_relative\<close>: the path joined to \<^verbatim>\<open>self.base_model.root\<close>.\<close>

definition base_relative :: "string \<Rightarrow> string \<Rightarrow> string" where
  "base_relative root path = path_join root path"

text \<open>
  Modelled from the spec: \<^verbatim>\<open>copy_file_if_exists\<close> of \<^verbatim>\<open>subiquitycore.file_util\<close> is
  missing; "the winning file is copied to the canonical root location". A source that does
  not exist leaves the file system as it is.
\<close>

definition copy_file_if_exists :: "filesystem \<Rightarrow> string \<Rightarrow> string \<Rightarrow> filesystem" where
  "copy_file_if_exists fs source target =
     (case fs source of None \<Rightarrow> fs | Some contents \<Rightarrow> fs(target \<mapsto> contents))"

text \<open>
  The \<^verbatim>\<open>for loc in locations\<close> loop with its \<^verbatim>\<open>else\<close> branch: \<open>Some loc\<close> where the
  loop breaks, \<open>None\<close> where it runs to the end.
\<close>

fun first_existing :: "filesystem \<Rightarrow> string option list \<Rightarrow> string option" where
  "first_existing fs [] = None"
| "first_existing fs (None # locations) = first_existing fs locations"
| "first_existing fs (Some loc # locations) =
     (if path_exists fs loc then Some loc else first_existing fs locations)"

text \<open>
  \<^verbatim>\<open>select_autoinstall\<close>, over \<^verbatim>\<open>self.opts.autoinstall\<close>, the root of the base model and
  the file system. It returns the selected path (or \<^verbatim>\<open>None\<close>) and the file system after
  the copy.
\<close>

definition select_autoinstall ::
  "opts \<Rightarrow> string \<Rightarrow> filesystem \<Rightarrow> error + (string option \<times> filesystem)" where
  "select_autoinstall options root fs =
     (if autoinstall options = Some [] then Inr (None, fs)
      else if (case autoinstall options of None \<Rightarrow> False | Some p \<Rightarrow> \<not> path_exists fs p)
      then Inl (Exception (''Autoinstall argument ''
                  @ (case autoinstall options of None \<Rightarrow> ''None'' | Some p \<Rightarrow> p)
                  @ '' not found''))
      else
        (let locations =
               [Some (base_relative root root_autoinstall_path),
                autoinstall options,
                Some (base_relative root cloud_autoinstall_path),
                Some (base_relative root iso_autoinstall_path)]
         in case first_existing fs locations of
              None \<Rightarrow> Inr (None, fs)
            | Some loc \<Rightarrow>
                (let rootpath = base_relative root root_autoinstall_path
                 in Inr (Some rootpath, copy_file_if_exists fs loc rootpath))))"

section \<open>Controllers\<close>

text \<open>
  A stage controller (\<^verbatim>\<open>SubiquityController\<close>, defined in another module) as the server
  uses it. The type \<open>'s\<close> is the application state its methods read and change:
  \<^verbatim>\<open>interactive()\<close> is a query on that state, \<^verbatim>\<open>apply_autoinstall_config()\<close> and
  \<^verbatim>\<open>configured()\<close> change it or raise.
\<close>

record 's controller =
  name :: string
  model_name :: "string option"
  autoinstall_key :: "string option"
  interactive :: "'s \<Rightarrow> bool"
  apply_autoinstall_config :: "'s \<Rightarrow> error + 's"
  configured :: "'s \<Rightarrow> error + 's"

section \<open>The non-interactive sweep\<close>




section \<open>The interactive-sections query\<close>

text \<open>
  A value loaded by \<^verbatim>\<open>yaml.safe_load\<close>. The autoinstall configuration is \<^verbatim>\<open>None\<close> or a
  dictionary; \<^verbatim>\<open>dict.get(key, None)\<close> gives \<^verbatim>\<open>None\<close> for a missing key.
\<close>

datatype pyval =
    PyNone
  | PyBool bool
  | PyInt int
  | PyStr string
  | PyList "pyval list"
  | PyDict "(string \<times> pyval) list"

type_synonym dict = "(string \<times> pyval) list"

definition dict_get :: "dict \<Rightarrow> string \<Rightarrow> pyval" where
  "dict_get d k = (case map_of d k of None \<Rightarrow> PyNone | Some v \<Rightarrow> v)"

text \<open>The truth of \<^verbatim>\<open>self.autoinstall_config\<close> in a condition: not \<^verbatim>\<open>None\<close>, not empty.\<close>

definition config_truthy :: "dict option \<Rightarrow> bool" where
  "config_truthy c = (case c of None \<Rightarrow> False | Some d \<Rightarrow> d \<noteq> [])"

text \<open>
  The list comprehension of \<^verbatim>\<open>interactive_sections_GET\<close>: the keys of the controllers
  that are interactive in the state \<open>s\<close> of the call and have a key.
\<close>

fun interactive_keys :: "'s controller list \<Rightarrow> 's \<Rightarrow> string list" where
  "interactive_keys [] s = []"
| "interactive_keys (c # cs) s =
     (if interactive c s
      then (case autoinstall_key c of
              None \<Rightarrow> interactive_keys cs s
            | Some k \<Rightarrow> k # interactive_keys cs s)
      else interactive_keys cs s)"

definition interactive_sections_GET ::
  "dict option \<Rightarrow> 's controller list \<Rightarrow> 's \<Rightarrow> pyval" where
  "interactive_sections_GET autoinstall_config instances s =
     (case autoinstall_config of
        None \<Rightarrow> PyNone
      | Some config \<Rightarrow>
          (let i_sections = dict_get config ''interactive-sections''
           in if i_sections = PyList [PyStr ''*'']
              then PyList (map PyStr (interactive_keys instances s))
              else i_sections))"

section \<open>The request middleware\<close>

text \<open>
  \<^verbatim>\<open>controller_for_request\<close> gives the object a route is bound to: a stage controller,
  another controller (\<^verbatim>\<open>MetaController\<close>, \<^verbatim>\<open>ErrorController\<close>) or \<^verbatim>\<open>None\<close>.
\<close>

datatype 's route_owner =
    NoController
  | OtherController
  | StageController "'s controller"

record 's request =
  raw_path :: string
  request_headers :: "string \<rightharpoonup> string"
  route_controller :: "'s route_owner"

text \<open>
  A response with its headers and the item \<^verbatim>\<open>resp["exception"]\<close>, which the bound
  handler of an endpoint sets when the endpoint raised.
\<close>

record response =
  status :: nat
  headers :: "string \<rightharpoonup> string"
  body :: string
  exception :: "error option"

datatype ErrorReportKind = SERVER_REQUEST_FAIL | UNKNOWN_KIND

record ErrorReport =
  kind :: ErrorReportKind
  thing :: string
  exc :: error

text \<open>
  The fields of the server the middleware reads and changes: the state, the flag
  \<^verbatim>\<open>updated\<close>, the reports of the error reporter, and everything else (\<open>world\<close>), which
  handlers and controllers may read and change.
\<close>

record 'w app =
  state :: ApplicationState
  updated :: bool
  reports :: "ErrorReport list"
  world :: 'w

text \<open>
  The collaborators: \<^verbatim>\<open>base_model.is_postinstall_only\<close> and the serialisation
  \<^verbatim>\<open>to_json(ErrorReportRef, report.ref())\<close>.
\<close>

record 'w gate_env =
  is_postinstall_only :: "'w app \<Rightarrow> string option \<Rightarrow> bool"
  report_ref_json :: "ErrorReport \<Rightarrow> string"

type_synonym 'w handler = "'w app request \<Rightarrow> 'w app \<Rightarrow> (error + response) \<times> 'w app"

text \<open>
  Modelled from the spec: \<^verbatim>\<open>make_apport_report\<close> belongs to the error reporter, which
  is missing; it creates one report for the fault and returns it.
\<close>

definition make_apport_report ::
  "ErrorReportKind \<Rightarrow> string \<Rightarrow> error \<Rightarrow> 'w app \<Rightarrow> ErrorReport \<times> 'w app" where
  "make_apport_report k t e a =
     (let report = \<lparr>kind = k, thing = t, exc = e\<rparr>
      in (report, a\<lparr>reports := reports a @ [report]\<rparr>))"

text \<open>Lines 427 to 435: the decision whether to answer in place of the handler.\<close>

definition override_status :: "'w gate_env \<Rightarrow> 'w app request \<Rightarrow> 'w app \<Rightarrow> string option" where
  "override_status env request a =
     (case route_controller request of
        StageController controller \<Rightarrow>
          (if request_headers request ''x-make-view-request'' = Some ''yes''
           then (if \<not> interactive controller a then Some ''skip''
                 else if state a = NEEDS_CONFIRMATION
                 then (if is_postinstall_only env a (model_name controller)
                       then Some ''confirm'' else None)
                 else None)
           else None)
      | _ \<Rightarrow> None)"

text \<open>\<^verbatim>\<open>web.Response(headers={"x-status": override_status})\<close>.\<close>

definition override_response :: "string \<Rightarrow> response" where
  "override_response st =
     \<lparr>status = 200, headers = [''x-status'' \<mapsto> st], body = [], exception = None\<rparr>"

text \<open>
  Lines 440 to 453: what is done with the response once there is one. An exception raised
  by the handler itself is not caught here and leaves the middleware.
\<close>

definition annotate ::
  "'w gate_env \<Rightarrow> 'w app request \<Rightarrow> (error + response) \<times> 'w app \<Rightarrow> (error + response) \<times> 'w app"
  where
  "annotate env request outcome =
     (case outcome of
        (Inl e, a) \<Rightarrow> (Inl e, a)
      | (Inr resp, a) \<Rightarrow>
          (let resp1 = resp\<lparr>headers := (headers resp)
                              (''x-updated'' \<mapsto> (if updated a then ''yes'' else ''no''))\<rparr>
           in case exception resp1 of
                None \<Rightarrow> (Inr resp1, a)
              | Some e \<Rightarrow>
                  (case make_apport_report SERVER_REQUEST_FAIL
                          (''request to '' @ raw_path request) e a of
                     (report, a2) \<Rightarrow>
                       (Inr (resp1\<lparr>headers := (headers resp1)
                                      (''x-error-report'' \<mapsto> report_ref_json env report)\<rparr>),
                        a2))))"

definition middleware ::
  "'w gate_env \<Rightarrow> 'w app request \<Rightarrow> 'w handler \<Rightarrow> 'w app \<Rightarrow> (error + response) \<times> 'w app"
  where
  "middleware env request handler a =
     annotate env request
       (case override_status env request a of
          Some st \<Rightarrow> (Inr (override_response st), a)
        | None \<Rightarrow> handler request a)"

section \<open>Installer credentials\<close>

text \<open>
  Modelled from the spec: \<^verbatim>\<open>state_path\<close> belongs to the base class \<^verbatim>\<open>Application\<close>,
  which is missing; the state directory holds "one file per durable fact", so a name is
  joined to the directory.
\<close>

definition state_path :: "string \<Rightarrow> string \<Rightarrow> string" where
  "state_path dir p = path_join dir p"

text \<open>\<^verbatim>\<open>str.startswith\<close>.\<close>

definition startswith :: "string \<Rightarrow> string \<Rightarrow> bool" where
  "startswith s p = (take (length p) s = p)"

text \<open>\<^verbatim>\<open>str.strip()\<close>, over the ASCII whitespace characters.\<close>

definition is_space :: "char \<Rightarrow> bool" where
  "is_space c = (c \<in> set [CHR '' '', CHR 0x09, CHR 0x0A, CHR 0x0B, CHR 0x0C, CHR 0x0D,
                           CHR 0x1C, CHR 0x1D, CHR 0x1E, CHR 0x1F])"

definition strip :: "string \<Rightarrow> string" where
  "strip s = rev (dropWhile is_space (rev (dropWhile is_space s)))"

text \<open>\<^verbatim>\<open>get_installer_password_from_cloudinit_log\<close>: the first line with the marker.\<close>

fun first_installer_line :: "string list \<Rightarrow> string option" where
  "first_installer_line [] = None"
| "first_installer_line (line # lines) =
     (if startswith line ''installer:''
      then Some (strip (drop (length ''installer:'') line))
      else first_installer_line lines)"

definition get_installer_password_from_cloudinit_log :: "os_facts \<Rightarrow> string option" where
  "get_installer_password_from_cloudinit_log os =
     (case cloud_init_output_log os of
        None \<Rightarrow> None
      | Some lines \<Rightarrow> first_installer_line lines)"

text \<open>\<^verbatim>\<open>_user_has_password\<close>; opening a missing \<^verbatim>\<open>/etc/shadow\<close> raises.\<close>

definition user_has_password :: "os_facts \<Rightarrow> string \<Rightarrow> error + bool" where
  "user_has_password os user =
     (case etc_shadow os of
        None \<Rightarrow> Inl (FileNotFoundError ''/etc/shadow'')
      | Some lines \<Rightarrow> Inr (list_ex (\<lambda>line. startswith line (user @ '':$'')) lines))"

text \<open>
  \<^verbatim>\<open>contents.split(":", 1)\<close>: two parts around the first colon, or the whole string when
  it has none.
\<close>

definition split_colon_once :: "string \<Rightarrow> string list" where
  "split_colon_once s =
     (if CHR '':'' \<in> set s
      then [takeWhile (\<lambda>c. c \<noteq> CHR '':'') s, drop 1 (dropWhile (\<lambda>c. c \<noteq> CHR '':'') s)]
      else [s])"

text \<open>
  What \<^verbatim>\<open>set_installer_password\<close> reads and changes: the installer-user attributes, the
  files, and the inputs handed to \<^verbatim>\<open>chpasswd\<close> so far (each one a password change).
\<close>

record provision =
  user :: installer_user
  disk :: filesystem
  chpasswd_inputs :: "string list"

text \<open>The local function \<^verbatim>\<open>use_passwd\<close>; concatenating \<^verbatim>\<open>None\<close> raises.\<close>

definition use_passwd :: "string \<Rightarrow> string \<Rightarrow> provision \<Rightarrow> error + provision" where
  "use_passwd passfile passwd pv =
     (let u = (user pv)\<lparr>installer_user_passwd := Some passwd,
                        installer_user_passwd_kind := KNOWN\<rparr>
      in case installer_user_name u of
           None \<Rightarrow> Inl (TypeError ''unsupported operand type(s) for +'')
         | Some n \<Rightarrow> Inr (pv\<lparr>user := u, disk := (disk pv)(passfile \<mapsto> n @ '':'' @ passwd)\<rparr>))"

definition set_kind :: "PasswordKind \<Rightarrow> provision \<Rightarrow> provision" where
  "set_kind k pv = pv\<lparr>user := (user pv)\<lparr>installer_user_passwd_kind := k\<rparr>\<rparr>"

definition set_installer_password ::
  "opts \<Rightarrow> os_facts \<Rightarrow> string \<Rightarrow> provision \<Rightarrow> error + provision" where
  "set_installer_password options os dir pv =
     (case installer_user_name (user pv) of
        None \<Rightarrow> Inr pv
      | Some user0 \<Rightarrow>
          (let passfile = state_path dir ''installer-user-passwd'' in
           case disk pv passfile of
             Some contents \<Rightarrow>
               (case split_colon_once contents of
                  [n, p] \<Rightarrow>
                    Inr (pv\<lparr>user := (user pv)\<lparr>installer_user_passwd_kind := KNOWN,
                                               installer_user_name := Some n,
                                               installer_user_passwd := Some p\<rparr>\<rparr>)
                | _ \<Rightarrow> Inl (ValueError ''not enough values to unpack (expected 2, got 1)''))
           | None \<Rightarrow>
               (if dry_run options
                then (case environ_USER os of
                        None \<Rightarrow> Inl (KeyError ''USER'')
                      | Some u \<Rightarrow>
                          use_passwd passfile (rand_user_password os)
                            (pv\<lparr>user := (user pv)\<lparr>installer_user_name := Some u\<rparr>\<rparr>))
                else (case user_has_password os user0 of
                        Inl e \<Rightarrow> Inl e
                      | Inr True \<Rightarrow>
                          (case get_installer_password_from_cloudinit_log os of
                             None \<Rightarrow> Inr (set_kind UNKNOWN pv)
                           | Some passwd \<Rightarrow>
                               (if passwd \<noteq> [] then use_passwd passfile passwd pv
                                else Inr (set_kind UNKNOWN pv)))
                      | Inr False \<Rightarrow>
                          (if user_key_fingerprints os user0 = []
                           then (let passwd = rand_user_password os;
                                     input = user0 @ '':'' @ passwd @ [CHR 0x0A];
                                     pv1 = pv\<lparr>chpasswd_inputs := chpasswd_inputs pv @ [input]\<rparr>
                                 in if chpasswd_returncode os input = 0
                                    then use_passwd passfile passwd pv1
                                    else Inr (set_kind NONE pv1))
                           else Inr (set_kind NONE pv))))))"

section \<open>The application state and its notification\<close>

text \<open>
  \<^verbatim>\<open>self.state_event\<close> is an \<^verbatim>\<open>asyncio.Event\<close> of the Python standard library: a flag
  and the futures of the coroutines suspended in \<^verbatim>\<open>wait()\<close>, each with a mark whether its
  result has been set. \<^verbatim>\<open>set()\<close> on a clear flag sets the result of every future that is
  not done, which schedules its coroutine; \<^verbatim>\<open>wait()\<close> returns at once when the flag is set,
  and otherwise appends a future and suspends; when the coroutine resumes it removes its
  future. The server runs on one thread, so the code between two suspension points runs
  without interleaving.
\<close>

record Event =
  is_set :: bool
  waiters :: "(nat \<times> bool) list"

definition Event_init :: Event where
  "Event_init = \<lparr>is_set = False, waiters = []\<rparr>"

text \<open>The futures of an event that are not done: the coroutines still blocked.\<close>

definition pending :: "Event \<Rightarrow> nat list" where
  "pending e = map fst (filter (\<lambda>(fut, done). \<not> done) (waiters e))"

definition Event_set :: "Event \<Rightarrow> Event \<times> nat list" where
  "Event_set e =
     (if is_set e then (e, [])
      else (e\<lparr>is_set := True, waiters := map (\<lambda>(fut, done). (fut, True)) (waiters e)\<rparr>,
            pending e))"

definition Event_clear :: "Event \<Rightarrow> Event" where
  "Event_clear e = e\<lparr>is_set := False\<rparr>"

text \<open>\<^verbatim>\<open>wait()\<close> up to its suspension point: \<open>True\<close> when the coroutine suspends.\<close>

definition Event_wait_begin :: "nat \<Rightarrow> Event \<Rightarrow> bool \<times> Event" where
  "Event_wait_begin fut e =
     (if is_set e then (False, e) else (True, e\<lparr>waiters := waiters e @ [(fut, False)]\<rparr>))"

fun remove_future :: "nat \<Rightarrow> (nat \<times> bool) list \<Rightarrow> (nat \<times> bool) list" where
  "remove_future fut [] = []"
| "remove_future fut ((g, done) # ws) = (if g = fut then ws else (g, done) # remove_future fut ws)"

text \<open>\<^verbatim>\<open>wait()\<close> from its resumption: the \<^verbatim>\<open>finally\<close> clause removes the future.\<close>

definition Event_wait_end :: "nat \<Rightarrow> Event \<Rightarrow> Event" where
  "Event_wait_end fut e = e\<lparr>waiters := remove_future fut (waiters e)\<rparr>"

text \<open>
  What the outside can see of a run, in order: a file written, a suspended coroutine
  scheduled to resume, a pause, the early commands run.
\<close>

datatype effect =
    Wrote string string
  | Woke nat
  | Slept nat
  | Ran_early_commands

text \<open>
  The part of the server the state machine uses. \<open>status_info\<close> stands for the seven
  other attributes \<^verbatim>\<open>status_GET\<close> copies into its answer (\<^verbatim>\<open>confirming_tty\<close>,
  \<^verbatim>\<open>fatal_error\<close>, \<^verbatim>\<open>cloud_init_ok\<close>, \<^verbatim>\<open>interactive\<close> and the three syslog ids).
\<close>

record 'i server =
  server_state :: ApplicationState
  state_event :: Event
  state_dir :: string
  files :: filesystem
  effects :: "effect list"
  status_info :: 'i

text \<open>
  Modelled from the spec: \<^verbatim>\<open>write_file\<close> of \<^verbatim>\<open>subiquitycore.file_util\<close> is missing;
  "every write is persisted to a state file".
\<close>

definition write_file :: "string \<Rightarrow> string \<Rightarrow> 'i server \<Rightarrow> 'i server" where
  "write_file path contents srv =
     srv\<lparr>files := (files srv)(path \<mapsto> contents),
         effects := effects srv @ [Wrote path contents]\<rparr>"

definition update_state :: "ApplicationState \<Rightarrow> 'i server \<Rightarrow> 'i server" where
  "update_state st srv =
     (let srv1 = srv\<lparr>server_state := st\<rparr>;
          srv2 = write_file (state_path (state_dir srv1) ''server-state'') (state_name st) srv1
      in case Event_set (state_event srv2) of
           (e, woken) \<Rightarrow>
             srv2\<lparr>state_event := Event_clear e,
                  effects := effects srv2 @ map Woke woken\<rparr>)"

text \<open>
  Lines 280 and 281 of \<^verbatim>\<open>__init__\<close>, in a process started on the files and the state
  directory that are there: a new event, and the first state written.
\<close>

definition new_server :: "string \<Rightarrow> filesystem \<Rightarrow> effect list \<Rightarrow> 'i \<Rightarrow> 'i server" where
  "new_server dir fs history info =
     update_state STARTING_UP
       \<lparr>server_state = STARTING_UP, state_event = Event_init, state_dir = dir,
        files = fs, effects = history, status_info = info\<rparr>"

record 'i ApplicationStatus =
  reported_state :: ApplicationState
  reported_info :: 'i

definition status_of :: "'i server \<Rightarrow> 'i ApplicationStatus" where
  "status_of srv = \<lparr>reported_state = server_state srv, reported_info = status_info srv\<rparr>"

datatype 'a awaited = Suspended | Completed 'a

text \<open>
  \<^verbatim>\<open>status_GET\<close> in its two parts: up to \<^verbatim>\<open>await self.app.state_event.wait()\<close>, where
  the coroutine with the future \<open>fut\<close> may suspend, and from its resumption. The answer is
  built from the server as it is when the coroutine runs that part.
\<close>

definition status_GET_begin ::
  "ApplicationState option \<Rightarrow> nat \<Rightarrow> 'i server \<Rightarrow> 'i ApplicationStatus awaited \<times> 'i server" where
  "status_GET_begin cur fut srv =
     (if cur = Some (server_state srv)
      then (case Event_wait_begin fut (state_event srv) of
              (True, e) \<Rightarrow> (Suspended, srv\<lparr>state_event := e\<rparr>)
            | (False, e) \<Rightarrow> (Completed (status_of srv), srv))
      else (Completed (status_of srv), srv))"

definition status_GET_resume :: "nat \<Rightarrow> 'i server \<Rightarrow> 'i ApplicationStatus \<times> 'i server" where
  "status_GET_resume fut srv =
     (let srv1 = srv\<lparr>state_event := Event_wait_end fut (state_event srv)\<rparr>
      in (status_of srv1, srv1))"

section \<open>The early commands\<close>

text \<open>
  What \<^verbatim>\<open>load_autoinstall_config(only_early=True)\<close> leaves for lines 670 to 679 of
  \<^verbatim>\<open>start\<close>: the configuration, the commands of the \<^verbatim>\<open>Early\<close> controller, and what
  running them does to the files (with the exception they raise, if any).
\<close>

record early_env =
  autoinstall_config :: "dict option"
  early_cmds :: "string list"
  early_run :: "filesystem \<Rightarrow> error option \<times> filesystem"

text \<open>
  \<^verbatim>\<open>asyncio.sleep(n)\<close> is recorded as a pause. \<^verbatim>\<open>open(stamp_file, "w").close()\<close> leaves
  an empty file, recorded as a write of the empty string.
\<close>

definition sleep :: "nat \<Rightarrow> 'i server \<Rightarrow> 'i server" where
  "sleep n srv = srv\<lparr>effects := effects srv @ [Slept n]\<rparr>"

definition start_early_commands :: "early_env \<Rightarrow> 'i server \<Rightarrow> error option \<times> 'i server" where
  "start_early_commands env srv =
     (if config_truthy (autoinstall_config env) \<and> early_cmds env \<noteq> []
      then (let stamp_file = state_path (state_dir srv) ''early-commands''
            in if \<not> path_exists (files srv) stamp_file
               then (let srv1 = update_state EARLY_COMMANDS srv;
                         srv2 = sleep 1 srv1;
                         srv3 = srv2\<lparr>effects := effects srv2 @ [Ran_early_commands]\<rparr>
                     in case early_run env (files srv3) of
                          (Some e, fs) \<Rightarrow> (Some e, srv3\<lparr>files := fs\<rparr>)
                        | (None, fs) \<Rightarrow>
                            (None, sleep 1 (write_file stamp_file [] (srv3\<lparr>files := fs\<rparr>))))
               else (None, srv))
      else (None, srv))"

text \<open>
  One run of the process as far as the state file and the stamp are concerned: the
  constructor, then lines 665, 670 to 679 and 688 of \<^verbatim>\<open>start\<close>. The files and the
  history of effects are those the previous run left.
\<close>

definition process_run :: "early_env \<Rightarrow> 'i server \<Rightarrow> error option \<times> 'i server" where
  "process_run env old =
     (let srv0 = new_server (state_dir old) (files old) (effects old) (status_info old);
          srv1 = update_state CLOUD_INIT_WAIT srv0
      in case start_early_commands env srv1 of
           (Some e, srv2) \<Rightarrow> (Some e, srv2)
         | (None, srv2) \<Rightarrow> (None, update_state WAITING srv2))"

fun restarts :: "early_env list \<Rightarrow> 'i server \<Rightarrow> 'i server" where
  "restarts [] srv = srv"
| "restarts (env # envs) srv = restarts envs (snd (process_run env srv))"

section \<open>Observations and example inputs\<close>


text \<open>
  Concrete controllers, requests and handlers on which the properties below are
  evaluated. The example registry has a controller whose \<^verbatim>\<open>apply_autoinstall_config\<close>
  makes a later controller interactive.
\<close>

definition example_controller ::
  "string \<Rightarrow> string option \<Rightarrow> ('s \<Rightarrow> bool) \<Rightarrow> ('s \<Rightarrow> 's) \<Rightarrow> 's controller" where
  "example_controller n k i f =
     \<lparr>name = n, model_name = k, autoinstall_key = k, interactive = i,
      apply_autoinstall_config = (\<lambda>s. Inr (f s)), configured = Inr\<rparr>"

definition example_registry :: "string list controller list" where
  "example_registry =
     [example_controller ''Network'' (Some ''network'') (\<lambda>s. ''network'' \<in> set s)
        (\<lambda>s. ''identity'' # s),
      example_controller ''Install'' None (\<lambda>s. True) (\<lambda>s. s),
      example_controller ''Identity'' (Some ''identity'') (\<lambda>s. ''identity'' \<in> set s)
        (\<lambda>s. s)]"

definition example_os :: os_facts where
  "example_os =
     \<lparr>user_key_fingerprints = (\<lambda>u. []),
      host_key_fingerprints_probe = [(''ssh-rsa'', ''SHA256:abc'')],
      environ_USER = Some ''tester'',
      etc_shadow = Some [''root:*:19000:0:99999:7:::'', ''installer:!:19000:0:99999:7:::''],
      cloud_init_output_log = None,
      rand_user_password = ''Xk3mPq9vTz2LbN7w4RsY'',
      chpasswd_returncode = (\<lambda>input. 0)\<rparr>"

definition example_provision :: provision where
  "example_provision =
     \<lparr>user = \<lparr>installer_user_name = Some ''ubuntu'',
              installer_user_passwd_kind = NONE,
              installer_user_passwd = None\<rparr>,
      disk = [''/run/subiquity/installer-user-passwd'' \<mapsto> ''installer:s3cret:x''],
      chpasswd_inputs = []\<rparr>"



definition example_booting_server :: "unit server" where
  "example_booting_server =
     update_state CLOUD_INIT_WAIT (new_server ''/run/subiquity'' Map.empty [] ())"

definition example_early_env :: early_env where
  "example_early_env =
     \<lparr>autoinstall_config = Some [(''version'', PyInt 1),
                                 (''early-commands'', PyList [PyStr ''echo hello''])],
      early_cmds = [''echo hello''],
      early_run = (\<lambda>fs. (None, fs(''/tmp/hello'' \<mapsto> ''hello'')))\<rparr>"

definition example_probe :: "'s controller \<Rightarrow> 's request" where
  "example_probe c =
     \<lparr>raw_path = ''/identity'', request_headers = [''x-make-view-request'' \<mapsto> ''yes''],
      route_controller = StageController c\<rparr>"

definition example_app :: "ApplicationState \<Rightarrow> unit app" where
  "example_app st = \<lparr>state = st, updated = False, reports = [], world = ()\<rparr>"

definition example_env :: "unit gate_env" where
  "example_env =
     \<lparr>is_postinstall_only = (\<lambda>a m. m = Some ''identity''), report_ref_json = thing\<rparr>"

definition example_handler :: "error option \<Rightarrow> unit handler" where
  "example_handler e request a =
     (Inr \<lparr>status = (if e = None then 200 else 500), headers = Map.empty,
           body = ''{}'', exception = e\<rparr>, a)"

section \<open>Properties of restart\<close>

lemma restart_cmdline_nonempty: "restart_cmdline options env \<noteq> []"
  by (simp add: restart_cmdline_def)

text \<open>
  C9, as stated, fails: with no snapd connection (\<^verbatim>\<open>self.snapd\<close> is \<^verbatim>\<open>None\<close>, "Snap
  support is disabled") the restart endpoint returns without replacing the process.
\<close>

theorem restart_without_snapd_counterexample:
  "restart_POST \<lparr>dry_run = False, autoinstall = None\<rparr>
     \<lparr>snapd = (None :: unit option),
      sys_executable = ''/usr/bin/python3'', sys_argv = [''server'']\<rparr> = Returned"
  by (simp add: restart_POST_def restart_def)

text \<open>
  C9, amended: a restart request replaces the process by re-exec exactly when a snapd
  connection is present; the new image is \<^verbatim>\<open>snap run subiquity.subiquity-server\<close>, or in
  dry-run mode the Python interpreter on \<^verbatim>\<open>-m subiquity.cmd.server\<close> followed by the
  arguments after the program name. With no snapd connection the request returns and the
  process continues.
\<close>

theorem restart_POST_reexec:
  "(snapd env = None \<longrightarrow> restart_POST options env = Returned) \<and>
   (snapd env \<noteq> None \<and> \<not> dry_run options \<longrightarrow>
      restart_POST options env =
        Execvp ''snap'' [''snap'', ''run'', ''subiquity.subiquity-server'']) \<and>
   (snapd env \<noteq> None \<and> dry_run options \<longrightarrow>
      restart_POST options env =
        Execvp (sys_executable env)
          ([sys_executable env, ''-m'', ''subiquity.cmd.server''] @ tl (sys_argv env)))"
  by (auto simp: restart_POST_def restart_def restart_cmdline_def drop_Suc
           split: list.splits if_splits)

theorem restart_POST_reexec_witness:
  "restart_POST \<lparr>dry_run = True, autoinstall = None\<rparr>
     \<lparr>snapd = (None :: unit option),
      sys_executable = ''python3'', sys_argv = [''server'', ''--dry-run'']\<rparr> = Returned \<and>
   restart_POST \<lparr>dry_run = False, autoinstall = None\<rparr>
     \<lparr>snapd = Some (),
      sys_executable = ''python3'', sys_argv = [''server'']\<rparr>
     = Execvp ''snap'' [''snap'', ''run'', ''subiquity.subiquity-server''] \<and>
   restart_POST \<lparr>dry_run = True, autoinstall = None\<rparr>
     \<lparr>snapd = Some (),
      sys_executable = ''python3'', sys_argv = [''server'', ''--dry-run'']\<rparr>
     = Execvp ''python3'' [''python3'', ''-m'', ''subiquity.cmd.server'', ''--dry-run'']"
  using restart_POST_reexec
          [where options = "\<lparr>dry_run = True, autoinstall = None\<rparr>"
             and env = "\<lparr>snapd = (None :: unit option),
                 sys_executable = ''python3'', sys_argv = [''server'', ''--dry-run'']\<rparr>"]
        restart_POST_reexec
          [where options = "\<lparr>dry_run = False, autoinstall = None\<rparr>"
             and env = "\<lparr>snapd = Some (),
                 sys_executable = ''python3'', sys_argv = [''server'']\<rparr>"]
        restart_POST_reexec
          [where options = "\<lparr>dry_run = True, autoinstall = None\<rparr>"
             and env = "\<lparr>snapd = Some (),
                 sys_executable = ''python3'', sys_argv = [''server'', ''--dry-run'']\<rparr>"]
  by simp

section \<open>Properties of the SSH session information\<close>

lemma collect_ips_empty_iff:
  "collect_ips env = [] \<longleftrightarrow>
     (case network env of
        None \<Rightarrow> True
      | Some devs \<Rightarrow> \<forall>dev \<in> set devs. actual_global_ip_addresses dev = [])"
  by (auto simp: collect_ips_def split: option.splits)

text \<open>
  C10: the call returns \<^verbatim>\<open>None\<close> exactly when no global IP address is collected or the
  installer user name is \<^verbatim>\<open>None\<close>. In every other call it returns a populated
  \<^verbatim>\<open>LiveSessionSSHInfo\<close>, also when the password kind is \<^verbatim>\<open>NONE\<close> and the user has
  no authorized-key fingerprints.
\<close>

theorem ssh_info_GET_None_iff:
  "(ssh_info_GET os env = None \<longleftrightarrow>
      collect_ips env = [] \<or> installer_user_name env = None) \<and>
   (collect_ips env \<noteq> [] \<and> installer_user_name env = Some u \<longrightarrow>
      ssh_info_GET os env =
        Some \<lparr>username = u,
              password_kind = installer_user_passwd_kind env,
              password = installer_user_passwd env,
              authorized_key_fingerprints = make_fingerprints (user_key_fingerprints os u),
              ips = collect_ips env,
              host_key_fingerprints = make_fingerprints (host_key_fingerprints_probe os)\<rparr>)"
  by (auto simp: ssh_info_GET_def Let_def function_object_truthy_def split: option.splits)

theorem ssh_info_GET_None_iff_witness:
  "ssh_info_GET example_os
     \<lparr>installer_user_name = Some ''installer'',
      installer_user_passwd_kind = NONE,
      installer_user_passwd = None,
      network = Some [\<lparr>actual_global_ip_addresses = [''10.0.2.15'']\<rparr>],
      str_of_ip = (\<lambda>a. a)\<rparr>
   = Some \<lparr>username = ''installer'', password_kind = NONE, password = None,
           authorized_key_fingerprints = [],
           ips = [''10.0.2.15''],
           host_key_fingerprints = [\<lparr>keytype = ''ssh-rsa'', fingerprint = ''SHA256:abc''\<rparr>]\<rparr>"
  using ssh_info_GET_None_iff
          [where os = example_os
             and env = "\<lparr>installer_user_name = Some ''installer'',
                 installer_user_passwd_kind = NONE,
                 installer_user_passwd = None,
                 network = Some [\<lparr>actual_global_ip_addresses = [''10.0.2.15'']\<rparr>],
                 str_of_ip = (\<lambda>a. a)\<rparr>"
             and u = "''installer''"]
  by (simp add: collect_ips_def make_fingerprints_def example_os_def)

section \<open>Properties of the autoinstall source selection\<close>

lemma update_same_contents: "path_exists fs r \<Longrightarrow> fs(r \<mapsto> the (fs r)) = fs"
  by (auto simp: path_exists_def fun_upd_idem)

lemma copy_file_existing:
  "path_exists fs q \<Longrightarrow> copy_file_if_exists fs q r = fs(r \<mapsto> the (fs q))"
  by (auto simp: copy_file_if_exists_def path_exists_def)

text \<open>
  C2: an empty operator-supplied source disables autoinstall whatever else exists; a
  non-empty operator-supplied source that does not exist raises; otherwise the first
  existing location in the order root, operator-supplied, cloud metadata, installation
  media wins, its contents are copied to the root location and the root location is
  returned; with no existing candidate the result is \<^verbatim>\<open>None\<close> and nothing is copied.
\<close>

theorem select_autoinstall_precedence:
  "(autoinstall options = Some [] \<longrightarrow> select_autoinstall options root fs = Inr (None, fs)) \<and>
   (autoinstall options = Some p \<and> p \<noteq> [] \<and> \<not> path_exists fs p \<longrightarrow>
      (\<exists>e. select_autoinstall options root fs = Inl e)) \<and>
   (autoinstall options = None \<or>
    (\<exists>q. autoinstall options = Some q \<and> q \<noteq> [] \<and> path_exists fs q) \<longrightarrow>
      select_autoinstall options root fs =
        (if path_exists fs (base_relative root root_autoinstall_path)
         then Inr (Some (base_relative root root_autoinstall_path), fs)
         else if autoinstall options \<noteq> None
         then Inr (Some (base_relative root root_autoinstall_path),
                   fs(base_relative root root_autoinstall_path \<mapsto>
                        the (fs (the (autoinstall options)))))
         else if path_exists fs (base_relative root cloud_autoinstall_path)
         then Inr (Some (base_relative root root_autoinstall_path),
                   fs(base_relative root root_autoinstall_path \<mapsto>
                        the (fs (base_relative root cloud_autoinstall_path))))
         else if path_exists fs (base_relative root iso_autoinstall_path)
         then Inr (Some (base_relative root root_autoinstall_path),
                   fs(base_relative root root_autoinstall_path \<mapsto>
                        the (fs (base_relative root iso_autoinstall_path))))
         else Inr (None, fs)))"
  by (auto simp: select_autoinstall_def Let_def update_same_contents copy_file_existing)

theorem select_autoinstall_precedence_witness:
  "select_autoinstall \<lparr>dry_run = False, autoinstall = Some []\<rparr> ''/target''
     [''/target/autoinstall.yaml'' \<mapsto> ''version: 1''] =
     Inr (None, [''/target/autoinstall.yaml'' \<mapsto> ''version: 1'']) \<and>
   (\<exists>e. select_autoinstall \<lparr>dry_run = False, autoinstall = Some ''/missing.yaml''\<rparr> ''/target''
     [''/target/autoinstall.yaml'' \<mapsto> ''version: 1''] = Inl e) \<and>
   select_autoinstall \<lparr>dry_run = False, autoinstall = None\<rparr> ''/target''
     [''/target/run/subiquity/cloud.autoinstall.yaml'' \<mapsto> ''cloud'',
      ''/target/cdrom/autoinstall.yaml'' \<mapsto> ''iso''] =
     Inr (Some ''/target/autoinstall.yaml'',
          [''/target/run/subiquity/cloud.autoinstall.yaml'' \<mapsto> ''cloud'',
           ''/target/cdrom/autoinstall.yaml'' \<mapsto> ''iso'',
           ''/target/autoinstall.yaml'' \<mapsto> ''cloud'']) \<and>
   select_autoinstall \<lparr>dry_run = False, autoinstall = Some ''/arg.yaml''\<rparr> ''/target''
     [''/arg.yaml'' \<mapsto> ''arg'', ''/target/cdrom/autoinstall.yaml'' \<mapsto> ''iso''] =
     Inr (Some ''/target/autoinstall.yaml'',
          [''/arg.yaml'' \<mapsto> ''arg'', ''/target/cdrom/autoinstall.yaml'' \<mapsto> ''iso'',
           ''/target/autoinstall.yaml'' \<mapsto> ''arg''])"
  using select_autoinstall_precedence
          [where options = "\<lparr>dry_run = False, autoinstall = Some []\<rparr>"
             and root = "''/target''"
             and fs = "[''/target/autoinstall.yaml'' \<mapsto> ''version: 1'']"]
        select_autoinstall_precedence
          [where options = "\<lparr>dry_run = False, autoinstall = Some ''/missing.yaml''\<rparr>"
             and root = "''/target''" and p = "''/missing.yaml''"
             and fs = "[''/target/autoinstall.yaml'' \<mapsto> ''version: 1'']"]
        select_autoinstall_precedence
          [where options = "\<lparr>dry_run = False, autoinstall = None\<rparr>"
             and root = "''/target''"
             and fs = "[''/target/run/subiquity/cloud.autoinstall.yaml'' \<mapsto> ''cloud'',
                        ''/target/cdrom/autoinstall.yaml'' \<mapsto> ''iso'']"]
        select_autoinstall_precedence
          [where options = "\<lparr>dry_run = False, autoinstall = Some ''/arg.yaml''\<rparr>"
             and root = "''/target''"
             and fs = "[''/arg.yaml'' \<mapsto> ''arg'',
                        ''/target/cdrom/autoinstall.yaml'' \<mapsto> ''iso'']"]
  by (simp add: base_relative_def path_join_def path_exists_def root_autoinstall_path_def
        cloud_autoinstall_path_def iso_autoinstall_path_def)

section \<open>Properties of the non-interactive sweep\<close>






section \<open>Properties of the interactive-sections query\<close>

lemma interactive_keys_filter:
  "interactive_keys cs s =
     map (the \<circ> autoinstall_key) (filter (\<lambda>c. interactive c s \<and> autoinstall_key c \<noteq> None) cs)"
  by (induction cs) (auto split: option.splits)

text \<open>
  C7: with no autoinstall configuration the query returns \<^verbatim>\<open>None\<close>; when
  \<^verbatim>\<open>interactive-sections\<close> is \<^verbatim>\<open>["*"]\<close> it returns the keys of the controllers that
  are interactive in the state of this call and have a key, in registry order; otherwise
  it returns the stored value (\<^verbatim>\<open>None\<close> when the key is absent). The result is a
  function of the state at the call, so two calls in different states give the expansion
  of each state.
\<close>

theorem interactive_sections_GET_cases:
  "interactive_sections_GET None cs s = PyNone \<and>
   (map_of config ''interactive-sections'' = Some (PyList [PyStr ''*'']) \<longrightarrow>
      interactive_sections_GET (Some config) cs s =
        PyList (map PyStr (map (the \<circ> autoinstall_key)
                  (filter (\<lambda>c. interactive c s \<and> autoinstall_key c \<noteq> None) cs)))) \<and>
   (map_of config ''interactive-sections'' = Some v \<and> v \<noteq> PyList [PyStr ''*''] \<longrightarrow>
      interactive_sections_GET (Some config) cs s = v) \<and>
   (map_of config ''interactive-sections'' = None \<longrightarrow>
      interactive_sections_GET (Some config) cs s = PyNone)"
  by (simp add: interactive_sections_GET_def dict_get_def interactive_keys_filter)

theorem interactive_sections_GET_cases_witness:
  "interactive_sections_GET
     (Some [(''version'', PyInt 1), (''interactive-sections'', PyList [PyStr ''*''])])
     example_registry [''network'', ''identity'']
     = PyList [PyStr ''network'', PyStr ''identity''] \<and>
   interactive_sections_GET
     (Some [(''version'', PyInt 1), (''interactive-sections'', PyList [PyStr ''*''])])
     example_registry [''network'']
     = PyList [PyStr ''network''] \<and>
   interactive_sections_GET
     (Some [(''version'', PyInt 1), (''interactive-sections'', PyList [PyStr ''network''])])
     example_registry []
     = PyList [PyStr ''network'']"
  using interactive_sections_GET_cases
     [where config = "[(''version'', PyInt 1), (''interactive-sections'', PyList [PyStr ''*''])]"
        and cs = example_registry and s = "[''network'', ''identity'']" and v = PyNone]
   interactive_sections_GET_cases
     [where config = "[(''version'', PyInt 1), (''interactive-sections'', PyList [PyStr ''*''])]"
        and cs = example_registry and s = "[''network'']" and v = PyNone]
   interactive_sections_GET_cases
     [where config = "[(''version'', PyInt 1),
                       (''interactive-sections'', PyList [PyStr ''network''])]"
        and cs = example_registry and s = "[]" and v = "PyList [PyStr ''network'']"]
  by (simp add: example_registry_def example_controller_def)

section \<open>Properties of the request middleware\<close>

text \<open>
  C5: for a request with the header \<^verbatim>\<open>x-make-view-request: yes\<close> addressed to a stage
  controller. If the controller is not interactive the response carries
  \<^verbatim>\<open>x-status: skip\<close>; if it is interactive, the state is \<^verbatim>\<open>NEEDS_CONFIRMATION\<close> and
  its model is post-install only, the response carries \<^verbatim>\<open>x-status: confirm\<close>. In both
  cases the result is the same for every handler and the application is unchanged: the
  handler is not invoked. In every other case the result is what the handler returns,
  passed through the annotation of lines 440 to 453.
\<close>

theorem middleware_view_probe:
  assumes "request_headers request ''x-make-view-request'' = Some ''yes''"
      and "route_controller request = StageController c"
  shows
  "(\<not> interactive c a \<longrightarrow>
      middleware env request handler a =
        (Inr \<lparr>status = 200,
              headers = [''x-status'' \<mapsto> ''skip'',
                         ''x-updated'' \<mapsto> (if updated a then ''yes'' else ''no'')],
              body = [], exception = None\<rparr>, a)) \<and>
   (interactive c a \<and> state a = NEEDS_CONFIRMATION \<and> is_postinstall_only env a (model_name c) \<longrightarrow>
      middleware env request handler a =
        (Inr \<lparr>status = 200,
              headers = [''x-status'' \<mapsto> ''confirm'',
                         ''x-updated'' \<mapsto> (if updated a then ''yes'' else ''no'')],
              body = [], exception = None\<rparr>, a)) \<and>
   (interactive c a \<and> \<not> (state a = NEEDS_CONFIRMATION \<and> is_postinstall_only env a (model_name c)) \<longrightarrow>
      middleware env request handler a = annotate env request (handler request a))"
  using assms
  by (auto simp: middleware_def override_status_def override_response_def annotate_def)

theorem middleware_view_probe_witness:
  "middleware example_env (example_probe (example_controller ''Identity'' (Some ''identity'')
        (\<lambda>a. False) (\<lambda>a. a))) (example_handler None) (example_app WAITING) =
     (Inr \<lparr>status = 200, headers = [''x-status'' \<mapsto> ''skip'', ''x-updated'' \<mapsto> ''no''],
           body = [], exception = None\<rparr>, example_app WAITING) \<and>
   middleware example_env (example_probe (example_controller ''Identity'' (Some ''identity'')
        (\<lambda>a. True) (\<lambda>a. a))) (example_handler None) (example_app NEEDS_CONFIRMATION) =
     (Inr \<lparr>status = 200, headers = [''x-status'' \<mapsto> ''confirm'', ''x-updated'' \<mapsto> ''no''],
           body = [], exception = None\<rparr>, example_app NEEDS_CONFIRMATION) \<and>
   middleware example_env (example_probe (example_controller ''Identity'' (Some ''identity'')
        (\<lambda>a. True) (\<lambda>a. a))) (example_handler None) (example_app WAITING) =
     (Inr \<lparr>status = 200, headers = [''x-updated'' \<mapsto> ''no''],
           body = ''{}'', exception = None\<rparr>, example_app WAITING)"
  using middleware_view_probe
     [where request = "example_probe (example_controller ''Identity'' (Some ''identity'') (\<lambda>a. False) (\<lambda>a. a))"
        and c = "example_controller ''Identity'' (Some ''identity'') (\<lambda>a. False) (\<lambda>a. a)"
        and a = "example_app WAITING" and env = example_env and handler = "example_handler None"]
   middleware_view_probe
     [where request = "example_probe (example_controller ''Identity'' (Some ''identity'') (\<lambda>a. True) (\<lambda>a. a))"
        and c = "example_controller ''Identity'' (Some ''identity'') (\<lambda>a. True) (\<lambda>a. a)"
        and a = "example_app NEEDS_CONFIRMATION" and env = example_env and handler = "example_handler None"]
   middleware_view_probe
     [where request = "example_probe (example_controller ''Identity'' (Some ''identity'') (\<lambda>a. True) (\<lambda>a. a))"
        and c = "example_controller ''Identity'' (Some ''identity'') (\<lambda>a. True) (\<lambda>a. a)"
        and a = "example_app WAITING" and env = example_env and handler = "example_handler None"]
  by (simp add: example_probe_def example_controller_def example_app_def example_env_def
        example_handler_def annotate_def)



section \<open>Properties of the installer credentials\<close>

lemma split_colon_once_parts:
  "CHR '':'' \<in> set s \<Longrightarrow>
     \<exists>n p. split_colon_once s = [n, p] \<and> s = n @ '':'' @ p \<and> CHR '':'' \<notin> set n"
proof -
  assume c: "CHR '':'' \<in> set s"
  let ?n = "takeWhile (\<lambda>c. c \<noteq> CHR '':'') s"
  let ?r = "dropWhile (\<lambda>c. c \<noteq> CHR '':'') s"
  from c have "?r \<noteq> []" by (simp add: dropWhile_eq_Nil_conv)
  moreover have "hd ?r = CHR '':''" using hd_dropWhile [of "\<lambda>c. c \<noteq> CHR '':''" s] \<open>?r \<noteq> []\<close> by auto
  ultimately have r: "?r = CHR '':'' # drop 1 ?r" by (cases ?r) auto
  have "s = ?n @ ?r" by simp
  with r have "s = ?n @ '':'' @ drop 1 ?r" by (metis append_Cons append_Nil)
  moreover have "CHR '':'' \<notin> set ?n" by (auto dest: set_takeWhileD)
  ultimately show ?thesis using c by (auto simp: split_colon_once_def)
qed

lemma stamp_written_has_colon:
  "set_installer_password options os dir pv = Inr pv' \<Longrightarrow>
   disk pv (state_path dir ''installer-user-passwd'') = None \<Longrightarrow>
   disk pv' (state_path dir ''installer-user-passwd'') = Some contents \<Longrightarrow>
   CHR '':'' \<in> set contents"
  by (auto simp: set_installer_password_def use_passwd_def set_kind_def Let_def
           split: option.splits sum.splits if_splits bool.splits)

text \<open>
  C8: with a known installer user name and a stamp file of the form
  \<^verbatim>\<open>name:password\<close>, \<^verbatim>\<open>set_installer_password\<close> takes the name (what precedes the
  first colon) and the password (all that follows it) from the stamp, sets the kind to
  \<^verbatim>\<open>KNOWN\<close>, writes no file and runs no \<^verbatim>\<open>chpasswd\<close>; called again on its own result
  it returns that result. Whenever the stamp file exists, whatever the user name, a call
  that returns leaves every file and the list of password changes as they were.
\<close>

theorem set_installer_password_stamp:
  "(installer_user_name (user pv) \<noteq> None \<and>
    disk pv (state_path dir ''installer-user-passwd'') = Some contents \<and>
    CHR '':'' \<in> set contents \<longrightarrow>
      (\<exists>n p. contents = n @ '':'' @ p \<and> CHR '':'' \<notin> set n \<and>
         set_installer_password options os dir pv =
           Inr (pv\<lparr>user := \<lparr>installer_user_name = Some n,
                             installer_user_passwd_kind = KNOWN,
                             installer_user_passwd = Some p\<rparr>\<rparr>) \<and>
         set_installer_password options os dir
             (pv\<lparr>user := \<lparr>installer_user_name = Some n,
                            installer_user_passwd_kind = KNOWN,
                            installer_user_passwd = Some p\<rparr>\<rparr>) =
           Inr (pv\<lparr>user := \<lparr>installer_user_name = Some n,
                             installer_user_passwd_kind = KNOWN,
                             installer_user_passwd = Some p\<rparr>\<rparr>))) \<and>
   (path_exists (disk pv) (state_path dir ''installer-user-passwd'') \<and>
    set_installer_password options os dir pv = Inr pv' \<longrightarrow>
      disk pv' = disk pv \<and> chpasswd_inputs pv' = chpasswd_inputs pv)"
proof -
  let ?passfile = "state_path dir ''installer-user-passwd''"
  have first: "installer_user_name (user pv) \<noteq> None \<and> disk pv ?passfile = Some contents \<and>
    CHR '':'' \<in> set contents \<longrightarrow>
      (\<exists>n p. contents = n @ '':'' @ p \<and> CHR '':'' \<notin> set n \<and>
         set_installer_password options os dir pv =
           Inr (pv\<lparr>user := \<lparr>installer_user_name = Some n,
                             installer_user_passwd_kind = KNOWN,
                             installer_user_passwd = Some p\<rparr>\<rparr>) \<and>
         set_installer_password options os dir
             (pv\<lparr>user := \<lparr>installer_user_name = Some n,
                            installer_user_passwd_kind = KNOWN,
                            installer_user_passwd = Some p\<rparr>\<rparr>) =
           Inr (pv\<lparr>user := \<lparr>installer_user_name = Some n,
                             installer_user_passwd_kind = KNOWN,
                             installer_user_passwd = Some p\<rparr>\<rparr>))"
  proof
    assume h: "installer_user_name (user pv) \<noteq> None \<and> disk pv ?passfile = Some contents \<and>
      CHR '':'' \<in> set contents"
    then obtain n p where np: "split_colon_once contents = [n, p]" "contents = n @ '':'' @ p"
      "CHR '':'' \<notin> set n"
      using split_colon_once_parts by blast
    have one: "set_installer_password options os dir pv =
           Inr (pv\<lparr>user := \<lparr>installer_user_name = Some n,
                             installer_user_passwd_kind = KNOWN,
                             installer_user_passwd = Some p\<rparr>\<rparr>)"
      using h np(1) by (auto simp: set_installer_password_def Let_def)
    have two: "set_installer_password options os dir
             (pv\<lparr>user := \<lparr>installer_user_name = Some n,
                            installer_user_passwd_kind = KNOWN,
                            installer_user_passwd = Some p\<rparr>\<rparr>) =
           Inr (pv\<lparr>user := \<lparr>installer_user_name = Some n,
                             installer_user_passwd_kind = KNOWN,
                             installer_user_passwd = Some p\<rparr>\<rparr>)"
      using h np(1) by (simp add: set_installer_password_def Let_def)
    from np one two show "\<exists>n p. contents = n @ '':'' @ p \<and> CHR '':'' \<notin> set n \<and>
         set_installer_password options os dir pv =
           Inr (pv\<lparr>user := \<lparr>installer_user_name = Some n,
                             installer_user_passwd_kind = KNOWN,
                             installer_user_passwd = Some p\<rparr>\<rparr>) \<and>
         set_installer_password options os dir
             (pv\<lparr>user := \<lparr>installer_user_name = Some n,
                            installer_user_passwd_kind = KNOWN,
                            installer_user_passwd = Some p\<rparr>\<rparr>) =
           Inr (pv\<lparr>user := \<lparr>installer_user_name = Some n,
                             installer_user_passwd_kind = KNOWN,
                             installer_user_passwd = Some p\<rparr>\<rparr>)"
      by blast
  qed
  have second: "path_exists (disk pv) ?passfile \<and>
    set_installer_password options os dir pv = Inr pv' \<longrightarrow>
      disk pv' = disk pv \<and> chpasswd_inputs pv' = chpasswd_inputs pv"
    by (auto simp: set_installer_password_def Let_def path_exists_def
             split: option.splits list.splits)
  from first second show ?thesis by blast
qed

theorem set_installer_password_stamp_witness:
  "set_installer_password \<lparr>dry_run = False, autoinstall = None\<rparr> example_os ''/run/subiquity''
     example_provision =
     Inr (example_provision\<lparr>user := \<lparr>installer_user_name = Some ''installer'',
                                       installer_user_passwd_kind = KNOWN,
                                       installer_user_passwd = Some ''s3cret:x''\<rparr>\<rparr>) \<and>
   set_installer_password \<lparr>dry_run = False, autoinstall = None\<rparr> example_os ''/run/subiquity''
     (example_provision\<lparr>user := \<lparr>installer_user_name = Some ''installer'',
                                  installer_user_passwd_kind = KNOWN,
                                  installer_user_passwd = Some ''s3cret:x''\<rparr>\<rparr>) =
     Inr (example_provision\<lparr>user := \<lparr>installer_user_name = Some ''installer'',
                                       installer_user_passwd_kind = KNOWN,
                                       installer_user_passwd = Some ''s3cret:x''\<rparr>\<rparr>)"
proof -
  have pre: "installer_user_name (user example_provision) \<noteq> None \<and>
    disk example_provision (state_path ''/run/subiquity'' ''installer-user-passwd'') =
      Some ''installer:s3cret:x'' \<and>
    CHR '':'' \<in> set ''installer:s3cret:x''"
    by (simp add: example_provision_def state_path_def path_join_def)
  from set_installer_password_stamp
         [where pv = example_provision and dir = "''/run/subiquity''"
            and contents = "''installer:s3cret:x''"
            and options = "\<lparr>dry_run = False, autoinstall = None\<rparr>" and os = example_os
            and pv' = example_provision]
       pre
  obtain n p where np: "''installer:s3cret:x'' = n @ '':'' @ p" "CHR '':'' \<notin> set n"
    and r1: "set_installer_password \<lparr>dry_run = False, autoinstall = None\<rparr> example_os
               ''/run/subiquity'' example_provision =
             Inr (example_provision\<lparr>user := \<lparr>installer_user_name = Some n,
                             installer_user_passwd_kind = KNOWN,
                             installer_user_passwd = Some p\<rparr>\<rparr>)"
    and r2: "set_installer_password \<lparr>dry_run = False, autoinstall = None\<rparr> example_os
               ''/run/subiquity''
               (example_provision\<lparr>user := \<lparr>installer_user_name = Some n,
                             installer_user_passwd_kind = KNOWN,
                             installer_user_passwd = Some p\<rparr>\<rparr>) =
             Inr (example_provision\<lparr>user := \<lparr>installer_user_name = Some n,
                             installer_user_passwd_kind = KNOWN,
                             installer_user_passwd = Some p\<rparr>\<rparr>)"
    by blast
  have "set_installer_password \<lparr>dry_run = False, autoinstall = None\<rparr> example_os
               ''/run/subiquity'' example_provision =
     Inr (example_provision\<lparr>user := \<lparr>installer_user_name = Some ''installer'',
                                       installer_user_passwd_kind = KNOWN,
                                       installer_user_passwd = Some ''s3cret:x''\<rparr>\<rparr>)"
    by (simp add: set_installer_password_def example_provision_def state_path_def path_join_def
          split_colon_once_def)
  with r1 have "n = ''installer''" "p = ''s3cret:x''"
    by (auto simp: example_provision_def)
  with r1 r2 show ?thesis by simp
qed

section \<open>Properties of the application state\<close>


lemma update_state_simps:
  "server_state (update_state st srv) = st"
  "state_dir (update_state st srv) = state_dir srv"
  "status_info (update_state st srv) = status_info srv"
  "files (update_state st srv) =
     (files srv)(state_path (state_dir srv) ''server-state'' \<mapsto> state_name st)"
  "\<not> is_set (state_event (update_state st srv))"
  by (auto simp: update_state_def write_file_def Event_set_def Event_clear_def Let_def
           split: prod.splits)

lemma update_state_effects:
  "effects (update_state st srv) =
     effects srv @ Wrote (state_path (state_dir srv) ''server-state'') (state_name st) #
       map Woke (if is_set (state_event srv) then [] else pending (state_event srv))"
  by (auto simp: update_state_def write_file_def Event_set_def Event_clear_def Let_def)



lemma status_GET_keeps_flag:
  "is_set (state_event (snd (status_GET_begin cur fut srv))) = is_set (state_event srv)"
  "is_set (state_event (snd (status_GET_resume fut srv))) = is_set (state_event srv)"
  by (auto simp: status_GET_begin_def status_GET_resume_def Event_wait_begin_def
        Event_wait_end_def Let_def)





section \<open>Properties of the early commands\<close>

lemma state_paths_differ:
  "state_path dir ''server-state'' \<noteq> state_path dir ''early-commands''"
  by (simp add: state_path_def path_join_def)

lemma update_state_keeps_stamp:
  "path_exists (files (update_state st srv)) (state_path (state_dir srv) ''early-commands'') =
   path_exists (files srv) (state_path (state_dir srv) ''early-commands'')"
  using state_paths_differ [of "state_dir srv"]
  by (simp add: update_state_simps path_exists_def)

lemma count_Woke: "count_list (map Woke ws) Ran_early_commands = 0"
  by (induction ws) auto

lemma update_state_count:
  "count_list (effects (update_state st srv)) Ran_early_commands =
   count_list (effects srv) Ran_early_commands"
  by (simp add: update_state_effects count_Woke)

lemma start_early_commands_stamped:
  "path_exists (files srv) (state_path (state_dir srv) ''early-commands'') \<Longrightarrow>
   start_early_commands env srv = (None, srv)"
  by (simp add: start_early_commands_def Let_def)

lemma process_run_stamped:
  assumes "path_exists (files srv) (state_path (state_dir srv) ''early-commands'')"
  shows "state_dir (snd (process_run env srv)) = state_dir srv \<and>
         path_exists (files (snd (process_run env srv)))
           (state_path (state_dir srv) ''early-commands'') \<and>
         count_list (effects (snd (process_run env srv))) Ran_early_commands =
           count_list (effects srv) Ran_early_commands"
proof -
  let ?s0 = "new_server (state_dir srv) (files srv) (effects srv) (status_info srv)"
  let ?s1 = "update_state CLOUD_INIT_WAIT ?s0"
  have d0: "state_dir ?s0 = state_dir srv" by (simp add: new_server_def update_state_simps)
  have p0: "path_exists (files ?s0) (state_path (state_dir srv) ''early-commands'')"
    using assms update_state_keeps_stamp
      [of STARTING_UP "\<lparr>server_state = STARTING_UP, state_event = Event_init,
          state_dir = state_dir srv, files = files srv, effects = effects srv,
          status_info = status_info srv\<rparr>"]
    by (simp add: new_server_def)
  have c0: "count_list (effects ?s0) Ran_early_commands = count_list (effects srv) Ran_early_commands"
    by (simp add: new_server_def update_state_count)
  have d1: "state_dir ?s1 = state_dir srv" using d0 by (simp add: update_state_simps)
  have p1: "path_exists (files ?s1) (state_path (state_dir ?s1) ''early-commands'')"
    using p0 update_state_keeps_stamp [of CLOUD_INIT_WAIT ?s0] d0 d1 by simp
  have c1: "count_list (effects ?s1) Ran_early_commands = count_list (effects srv) Ran_early_commands"
    using c0 by (simp add: update_state_count)
  have run: "process_run env srv = (None, update_state WAITING ?s1)"
    using start_early_commands_stamped [OF p1, of env] by (simp add: process_run_def Let_def)
  show ?thesis
    using run d1 p1 c1 update_state_keeps_stamp [of WAITING ?s1]
    by (simp add: update_state_simps update_state_count)
qed

lemma restarts_stamped:
  "path_exists (files srv) (state_path (state_dir srv) ''early-commands'') \<Longrightarrow>
   count_list (effects (restarts envs srv)) Ran_early_commands =
     count_list (effects srv) Ran_early_commands \<and>
   path_exists (files (restarts envs srv)) (state_path (state_dir srv) ''early-commands'')"
proof (induction envs arbitrary: srv)
  case Nil
  then show ?case by simp
next
  case (Cons env envs)
  from process_run_stamped [OF Cons.prems, of env]
  have d: "state_dir (snd (process_run env srv)) = state_dir srv"
    and p: "path_exists (files (snd (process_run env srv)))
           (state_path (state_dir (snd (process_run env srv))) ''early-commands'')"
    and c: "count_list (effects (snd (process_run env srv))) Ran_early_commands =
           count_list (effects srv) Ran_early_commands"
    by simp_all
  from Cons.IH [OF p] d c show ?case by simp
qed

text \<open>
  C3: with a configuration loaded and commands declared, lines 670 to 679 of \<^verbatim>\<open>start\<close>
  run the early commands exactly when the stamp file is absent. Then the state is written
  as \<^verbatim>\<open>EARLY_COMMANDS\<close> first, the commands run after a pause, and when they complete
  the stamp file is written next. Once the stamp file exists the step changes nothing,
  whatever configuration is loaded, and no number of further runs of the process runs the
  early commands again.
\<close>

theorem early_commands_once:
  "(config_truthy (autoinstall_config env) \<and> early_cmds env \<noteq> [] \<and>
    \<not> path_exists (files srv) (state_path (state_dir srv) ''early-commands'') \<and>
    early_run env (files (update_state EARLY_COMMANDS srv)) = (None, fs) \<longrightarrow>
      fst (start_early_commands env srv) = None \<and>
      server_state (snd (start_early_commands env srv)) = EARLY_COMMANDS \<and>
      (\<exists>woken. effects (snd (start_early_commands env srv)) =
         effects srv @
         [Wrote (state_path (state_dir srv) ''server-state'') ''EARLY_COMMANDS''] @
         map Woke woken @
         [Slept 1, Ran_early_commands,
          Wrote (state_path (state_dir srv) ''early-commands'') [], Slept 1]) \<and>
      files (snd (start_early_commands env srv)) =
        fs(state_path (state_dir srv) ''early-commands'' \<mapsto> [])) \<and>
   (config_truthy (autoinstall_config env) \<and> early_cmds env \<noteq> [] \<longrightarrow>
      count_list (effects (snd (start_early_commands env srv))) Ran_early_commands =
        count_list (effects srv) Ran_early_commands +
        (if path_exists (files srv) (state_path (state_dir srv) ''early-commands'')
         then 0 else 1)) \<and>
   (path_exists (files srv) (state_path (state_dir srv) ''early-commands'') \<longrightarrow>
      start_early_commands env srv = (None, srv) \<and>
      count_list (effects (restarts envs srv)) Ran_early_commands =
        count_list (effects srv) Ran_early_commands \<and>
      path_exists (files (restarts envs srv)) (state_path (state_dir srv) ''early-commands''))"
proof -
  have a: "config_truthy (autoinstall_config env) \<and> early_cmds env \<noteq> [] \<and>
    \<not> path_exists (files srv) (state_path (state_dir srv) ''early-commands'') \<and>
    early_run env (files (update_state EARLY_COMMANDS srv)) = (None, fs) \<longrightarrow>
      fst (start_early_commands env srv) = None \<and>
      server_state (snd (start_early_commands env srv)) = EARLY_COMMANDS \<and>
      (\<exists>woken. effects (snd (start_early_commands env srv)) =
         effects srv @
         [Wrote (state_path (state_dir srv) ''server-state'') ''EARLY_COMMANDS''] @
         map Woke woken @
         [Slept 1, Ran_early_commands,
          Wrote (state_path (state_dir srv) ''early-commands'') [], Slept 1]) \<and>
      files (snd (start_early_commands env srv)) =
        fs(state_path (state_dir srv) ''early-commands'' \<mapsto> [])"
    by (auto simp: start_early_commands_def Let_def sleep_def write_file_def
          update_state_simps update_state_effects)
  have b: "config_truthy (autoinstall_config env) \<and> early_cmds env \<noteq> [] \<longrightarrow>
      count_list (effects (snd (start_early_commands env srv))) Ran_early_commands =
        count_list (effects srv) Ran_early_commands +
        (if path_exists (files srv) (state_path (state_dir srv) ''early-commands'')
         then 0 else 1)"
    by (auto simp: start_early_commands_def Let_def sleep_def write_file_def
          update_state_count split: prod.splits option.splits)
  have c: "path_exists (files srv) (state_path (state_dir srv) ''early-commands'') \<longrightarrow>
      start_early_commands env srv = (None, srv) \<and>
      count_list (effects (restarts envs srv)) Ran_early_commands =
        count_list (effects srv) Ran_early_commands \<and>
      path_exists (files (restarts envs srv)) (state_path (state_dir srv) ''early-commands'')"
    using start_early_commands_stamped restarts_stamped by blast
  from a b c show ?thesis by blast
qed

theorem early_commands_once_witness:
  "fst (start_early_commands example_early_env example_booting_server) = None \<and>
   server_state (snd (start_early_commands example_early_env example_booting_server)) =
     EARLY_COMMANDS \<and>
   files (snd (start_early_commands example_early_env example_booting_server)) =
     [''/run/subiquity/server-state'' \<mapsto> ''EARLY_COMMANDS'', ''/tmp/hello'' \<mapsto> ''hello'',
      ''/run/subiquity/early-commands'' \<mapsto> []] \<and>
   count_list (effects (snd (start_early_commands example_early_env example_booting_server)))
     Ran_early_commands = 1 \<and>
   count_list
     (effects (restarts [example_early_env, example_early_env]
        (snd (start_early_commands example_early_env example_booting_server))))
     Ran_early_commands = 1"
proof -
  let ?srv = "snd (start_early_commands example_early_env example_booting_server)"
  have dir: "state_dir example_booting_server = ''/run/subiquity''"
    by (simp add: example_booting_server_def new_server_def update_state_simps)
  have fs0: "files example_booting_server =
               [''/run/subiquity/server-state'' \<mapsto> ''CLOUD_INIT_WAIT'']"
    by (simp add: example_booting_server_def new_server_def update_state_simps
          state_path_def path_join_def)
  have cnt0: "count_list (effects example_booting_server) Ran_early_commands = 0"
    by (simp add: example_booting_server_def new_server_def update_state_count)
  have pre: "config_truthy (autoinstall_config example_early_env) \<and>
    early_cmds example_early_env \<noteq> [] \<and>
    \<not> path_exists (files example_booting_server)
        (state_path (state_dir example_booting_server) ''early-commands'') \<and>
    early_run example_early_env (files (update_state EARLY_COMMANDS example_booting_server)) =
      (None, [''/run/subiquity/server-state'' \<mapsto> ''EARLY_COMMANDS'',
              ''/tmp/hello'' \<mapsto> ''hello''])"
    by (simp add: example_early_env_def config_truthy_def dir fs0 path_exists_def
          state_path_def path_join_def update_state_simps)
  note first = early_commands_once
      [where env = example_early_env and srv = example_booting_server
         and fs = "[''/run/subiquity/server-state'' \<mapsto> ''EARLY_COMMANDS'',
                    ''/tmp/hello'' \<mapsto> ''hello'']"
         and envs = "[]"]
  from first pre have r1: "fst (start_early_commands example_early_env example_booting_server) = None"
    and r2: "server_state ?srv = EARLY_COMMANDS"
    and r3: "files ?srv = [''/run/subiquity/server-state'' \<mapsto> ''EARLY_COMMANDS'',
                           ''/tmp/hello'' \<mapsto> ''hello'',
                           ''/run/subiquity/early-commands'' \<mapsto> []]"
    and r4: "count_list (effects ?srv) Ran_early_commands = 1"
    using cnt0 by (simp_all add: dir state_path_def path_join_def)
  have dir': "state_dir ?srv = ''/run/subiquity''"
    using pre by (simp add: start_early_commands_def Let_def sleep_def write_file_def
                    update_state_simps dir)
  have stamped: "path_exists (files ?srv) (state_path (state_dir ?srv) ''early-commands'')"
    by (simp add: r3 dir' path_exists_def state_path_def path_join_def)
  from early_commands_once
      [where env = example_early_env and srv = ?srv and fs = Map.empty
         and envs = "[example_early_env, example_early_env]"] stamped r4
  have r5: "count_list (effects (restarts [example_early_env, example_early_env] ?srv))
              Ran_early_commands = 1"
    by simp
  from r1 r2 r3 r4 r5 show ?thesis by blast
qed

end
